theory Spec2Isabelle
  imports Complex_Main
begin

section \<open>Storage quota monitoring (modules/storage-monitor.js)\<close>

text \<open>
  The module reads the browser's storage estimate, turns it into a percentage and a
  warning level, decides whether a write of an estimated size may go ahead, and warns
  the user after a write.

  Numbers. The host reports \<open>usage\<close> and \<open>quota\<close> as byte counts (unsigned integers),
  modelled as \<open>nat\<close>. Everything computed from them (the percentage, the projected
  usage, megabytes) is modelled in exact rational arithmetic, type \<open>rat\<close>; the rounding
  of IEEE doubles, \<open>NaN\<close> and the infinities are outside the model. An estimated size
  is any rational, so fractional and negative arguments are covered.

  Control. A JavaScript call either returns a value or throws; an awaited promise
  either resolves or rejects. Both are one \<open>outcome\<close>, and \<open>try { ... } catch\<close> is
  \<open>try_catch\<close>. The \<open>console\<close> lines that checkStorageQuota and estimateObjectSize
  print influence no returned value and are left out; showStorageWarning, whose whole
  purpose is its effect, returns the effects it performs together with its outcome.
\<close>

subsection \<open>Outcomes of calls\<close>

datatype 'a outcome = Returned 'a | Threw

definition try_catch :: "'a outcome \<Rightarrow> 'a outcome \<Rightarrow> 'a outcome" where
  "try_catch body handler = (case body of Returned v \<Rightarrow> Returned v | Threw \<Rightarrow> handler)"

subsection \<open>The host: navigator.storage\<close>

text \<open>
  Either \<open>navigator.storage\<close> (or its \<open>estimate\<close> method) is missing, or the promise
  of \<open>estimate()\<close> rejects, or it resolves to an object whose \<open>usage\<close> and \<open>quota\<close>
  members may each be absent.
\<close>

datatype storage_host =
    StorageApiMissing
  | EstimateRejects
  | EstimateResolves "nat option" "nat option"

definition storage_api_available :: "storage_host \<Rightarrow> bool" where
  "storage_api_available h = (h \<noteq> StorageApiMissing)"

fun navigator_storage_estimate :: "storage_host \<Rightarrow> (nat option \<times> nat option) outcome" where
  "navigator_storage_estimate (EstimateResolves u q) = Returned (u, q)"
| "navigator_storage_estimate EstimateRejects = Threw"
| "navigator_storage_estimate StorageApiMissing = Threw"

text \<open>\<open>x || 0\<close> on a member that is absent or a number.\<close>

definition or_zero :: "nat option \<Rightarrow> nat" where
  "or_zero v = (case v of None \<Rightarrow> 0 | Some n \<Rightarrow> if n = 0 then 0 else n)"

subsection \<open>Number.prototype.toFixed\<close>

text \<open>
  \<open>x.toFixed(f)\<close> writes the integer \<open>n\<close> nearest to \<open>x * 10^f\<close> (the larger one on a
  tie) in decimal, padded with zeros to at least \<open>f + 1\<close> digits, with a point before
  the last \<open>f\<close> digits, and a minus sign in front for negative \<open>x\<close>. The exponent
  notation that JavaScript switches to from \<open>10^21\<close> on is not modelled.
\<close>

definition digit_char :: "nat \<Rightarrow> char" where
  "digit_char d = ''0123456789'' ! (d mod 10)"

fun digits :: "nat \<Rightarrow> string" where
  "digits n = (if n < 10 then [digit_char n] else digits (n div 10) @ [digit_char n])"

declare digits.simps [simp del]

definition pad_zeros :: "nat \<Rightarrow> string \<Rightarrow> string" where
  "pad_zeros k m = replicate (k - length m) (CHR ''0'') @ m"

definition toFixed_nonneg :: "nat \<Rightarrow> rat \<Rightarrow> string" where
  "toFixed_nonneg f x =
     (let n = nat \<lfloor>x * 10 ^ f + 1 / 2\<rfloor>;
          m = digits n
      in if f = 0 then m
         else let m' = pad_zeros (f + 1) m;
                  k = length m'
              in take (k - f) m' @ ''.'' @ drop (k - f) m')"

definition toFixed :: "nat \<Rightarrow> rat \<Rightarrow> string" where
  "toFixed f x = (if x < 0 then ''-'' @ toFixed_nonneg f (- x) else toFixed_nonneg f x)"

subsection \<open>Thresholds and levels\<close>

definition QUOTA_THRESHOLDS_WARNING :: rat where
  "QUOTA_THRESHOLDS_WARNING = 80"

definition QUOTA_THRESHOLDS_CRITICAL :: rat where
  "QUOTA_THRESHOLDS_CRITICAL = 90"

definition QUOTA_THRESHOLDS_DANGER :: rat where
  "QUOTA_THRESHOLDS_DANGER = 95"

datatype quota_level = Safe | Warning | Critical | Danger

definition getQuotaLevel :: "rat \<Rightarrow> quota_level" where
  "getQuotaLevel percentUsed =
     (if percentUsed \<ge> QUOTA_THRESHOLDS_DANGER then Danger
      else if percentUsed \<ge> QUOTA_THRESHOLDS_CRITICAL then Critical
      else if percentUsed \<ge> QUOTA_THRESHOLDS_WARNING then Warning
      else Safe)"

text \<open>The order \<open>safe < warning < critical < danger\<close> of the levels, as a rank.\<close>

fun level_rank :: "quota_level \<Rightarrow> nat" where
  "level_rank Safe = 0"
| "level_rank Warning = 1"
| "level_rank Critical = 2"
| "level_rank Danger = 3"

subsection \<open>checkStorageQuota\<close>

record quota_info =
  usage :: nat
  quota :: nat
  percentUsed :: rat
  level :: quota_level
  usageMB :: string
  quotaMB :: string

text \<open>The result \<open>null\<close> is \<open>None\<close>.\<close>

definition checkStorageQuota :: "storage_host \<Rightarrow> quota_info option outcome" where
  "checkStorageQuota h =
     (if \<not> storage_api_available h then Returned None
      else try_catch
        (case navigator_storage_estimate h of
           Threw \<Rightarrow> Threw
         | Returned (u, q) \<Rightarrow>
             (let usage' = or_zero u;
                  quota' = or_zero q
              in if quota' = 0 then Returned None
                 else
                   (let percentUsed' = (of_nat usage' / of_nat quota') * 100;
                        level' = getQuotaLevel percentUsed'
                    in Returned (Some
                         \<lparr> usage = usage',
                           quota = quota',
                           percentUsed = percentUsed',
                           level = level',
                           usageMB = toFixed 2 (of_nat usage' / (1024 * 1024)),
                           quotaMB = toFixed 2 (of_nat quota' / (1024 * 1024)) \<rparr>))))
        (Returned None))"

subsection \<open>getStorageStatusMessage\<close>

text \<open>
  Text is held as bytes in UTF-8. The warning sign that opens two of the messages is
  the code points U+26A0 U+FE0F.
\<close>

definition warning_sign :: string where
  "warning_sign = [CHR 0xE2, CHR 0x9A, CHR 0xA0, CHR 0xEF, CHR 0xB8, CHR 0x8F]"

definition getStorageStatusMessage :: "quota_info option \<Rightarrow> string" where
  "getStorageStatusMessage quotaInfo =
     (case quotaInfo of
        None \<Rightarrow> ''Storage usage information not available''
      | Some i \<Rightarrow>
          (case level i of
             Danger \<Rightarrow>
               warning_sign @ '' Storage critically full ('' @ toFixed 1 (percentUsed i)
                 @ ''%)! Using '' @ usageMB i @ ''MB of '' @ quotaMB i
                 @ ''MB. Delete old data immediately to prevent save failures.''
           | Critical \<Rightarrow>
               warning_sign @ '' Storage almost full ('' @ toFixed 1 (percentUsed i)
                 @ ''%). Using '' @ usageMB i @ ''MB of '' @ quotaMB i
                 @ ''MB. Consider deleting old conversations or prompts.''
           | Warning \<Rightarrow>
               ''Storage usage high ('' @ toFixed 1 (percentUsed i)
                 @ ''%). Using '' @ usageMB i @ ''MB of '' @ quotaMB i @ ''MB.''
           | Safe \<Rightarrow>
               ''Storage: '' @ usageMB i @ ''MB / '' @ quotaMB i
                 @ ''MB ('' @ toFixed 1 (percentUsed i) @ ''%)''))"

subsection \<open>canPerformStorageOperation\<close>

record admission =
  allowed :: bool
  reason :: string
  quotaInfo :: "quota_info option"

definition canPerformStorageOperation :: "storage_host \<Rightarrow> rat \<Rightarrow> admission outcome" where
  "canPerformStorageOperation h estimatedSize =
     (case checkStorageQuota h of
        Threw \<Rightarrow> Threw
      | Returned None \<Rightarrow>
          Returned \<lparr> allowed = True,
                     reason = ''Quota information not available, proceeding'',
                     quotaInfo = None \<rparr>
      | Returned (Some i) \<Rightarrow>
          if level i = Danger then
            Returned \<lparr> allowed = False,
                       reason = ''Storage critically full ('' @ toFixed 1 (percentUsed i)
                         @ ''%). Delete old data before saving.'',
                       quotaInfo = Some i \<rparr>
          else if estimatedSize > 0 \<and>
                  (let projectedUsage = of_nat (usage i) + estimatedSize;
                       projectedPercent = (projectedUsage / of_nat (quota i)) * 100
                   in projectedPercent \<ge> 100) then
            Returned \<lparr> allowed = False,
                       reason = ''Operation would exceed storage quota. Free up space before saving.'',
                       quotaInfo = Some i \<rparr>
          else
            Returned \<lparr> allowed = True, reason = ''Storage available'', quotaInfo = Some i \<rparr>)"

text \<open>The parameter's default, \<open>estimatedSize = 0\<close>.\<close>

definition canPerformStorageOperation_default :: "storage_host \<Rightarrow> admission outcome" where
  "canPerformStorageOperation_default h = canPerformStorageOperation h 0"

subsection \<open>showStorageWarning\<close>

text \<open>
  The host's \<open>chrome.notifications\<close>: it is missing; or \<open>create\<close> returns a promise,
  which resolves or rejects; or \<open>create\<close> shows the notification and returns no promise
  (the callback form of the API returns \<open>undefined\<close>); or \<open>create\<close> itself throws.
  The call \<open>chrome.notifications.create({...}).catch(...)\<close> stands in no \<open>try\<close>: a
  rejected promise is caught by \<open>.catch\<close> and falls back to the console, but reading
  \<open>.catch\<close> of \<open>undefined\<close> throws, and so does a \<open>create\<close> that throws.
\<close>

datatype notifications_host =
    NotificationsMissing
  | CreateResolves
  | CreateRejects
  | CreateReturnsNoPromise
  | CreateThrows

record notification =
  ntype :: string
  iconUrl :: string
  title :: string
  message :: string
  priority :: nat

datatype effect = CreateNotification notification | ConsoleWarn string

text \<open>The effects performed, in order, and whether the call returned or threw.\<close>

definition showStorageWarning ::
  "notifications_host \<Rightarrow> quota_info option \<Rightarrow> effect list \<times> unit outcome" where
  "showStorageWarning n info =
     (case info of
        None \<Rightarrow> ([], Returned ())
      | Some i \<Rightarrow>
          if level i = Safe then ([], Returned ())
          else
            (let msg = getStorageStatusMessage info;
                 create = CreateNotification
                   \<lparr> ntype = ''basic'',
                     iconUrl = ''../icons/icon128.png'',
                     title = ''Storage Warning'',
                     message = msg,
                     priority = (if level i = Danger then 2 else 1) \<rparr>
             in case n of
                  CreateResolves \<Rightarrow> ([create], Returned ())
                | CreateRejects \<Rightarrow>
                    ([create, ConsoleWarn (''[Storage Monitor] '' @ msg)], Returned ())
                | CreateReturnsNoPromise \<Rightarrow> ([create], Threw)
                | CreateThrows \<Rightarrow> ([], Threw)
                | NotificationsMissing \<Rightarrow>
                    ([ConsoleWarn (''[Storage Monitor] '' @ msg)], Returned ())))"

subsection \<open>estimateObjectSize\<close>

text \<open>
  \<open>JSON.stringify\<close> belongs to the platform and is a parameter: on an object it
  returns a string, or returns \<open>undefined\<close> (\<open>None\<close>: for \<open>undefined\<close>, a function or
  a symbol), or throws (a cyclic structure, a BigInt). A string is the list of its
  UTF-16 code units, so \<open>.length\<close> is the length of the list; reading \<open>.length\<close> of
  \<open>undefined\<close> throws.
\<close>

type_synonym 'c js_string = "'c list"

definition js_length :: "'c js_string option \<Rightarrow> nat outcome" where
  "js_length s = (case s of None \<Rightarrow> Threw | Some cs \<Rightarrow> Returned (length cs))"

definition estimateObjectSize :: "('o \<Rightarrow> 'c js_string option outcome) \<Rightarrow> 'o \<Rightarrow> nat outcome" where
  "estimateObjectSize stringify obj =
     try_catch
       (case stringify obj of
          Threw \<Rightarrow> Threw
        | Returned jsonString \<Rightarrow>
            (case js_length jsonString of
               Threw \<Rightarrow> Threw
             | Returned len \<Rightarrow> Returned (len * 2)))
       (Returned 0)"

subsection \<open>monitorStorageQuota\<close>

text \<open>
  The call of showStorageWarning stands in no \<open>try\<close> either, so what it throws leaves
  monitorStorageQuota (its promise rejects) after the effects performed so far.
\<close>

definition monitorStorageQuota ::
  "storage_host \<Rightarrow> notifications_host \<Rightarrow> effect list \<times> quota_info option outcome" where
  "monitorStorageQuota h n =
     (case checkStorageQuota h of
        Threw \<Rightarrow> ([], Threw)
      | Returned info \<Rightarrow>
          (case info of
             None \<Rightarrow> ([], Returned info)
           | Some i \<Rightarrow>
               if level i \<noteq> Safe then
                 (case showStorageWarning n info of
                    (es, Threw) \<Rightarrow> (es, Threw)
                  | (es, Returned _) \<Rightarrow> (es, Returned info))
               else ([], Returned info)))"

subsection \<open>The admission rules as the specification words them\<close>

text \<open>
  The four rules in order: (1) quota information unavailable: allow; (2) the current
  level is danger: deny; (3) \<open>estimatedBytes > 0\<close> and
  \<open>(used + estimatedBytes) / capacity \<ge> 1\<close>: deny; (4) otherwise allow.
\<close>

definition admit_rules :: "quota_info option \<Rightarrow> rat \<Rightarrow> bool" where
  "admit_rules q estimatedBytes =
     (case q of
        None \<Rightarrow> True
      | Some i \<Rightarrow>
          if level i = Danger then False
          else if estimatedBytes > 0 \<and>
                  (of_nat (usage i) + estimatedBytes) / of_nat (quota i) \<ge> 1 then False
          else True)"

section \<open>Properties\<close>

subsection \<open>What checkStorageQuota returns\<close>

lemma checkStorageQuota_missing: "checkStorageQuota StorageApiMissing = Returned None"
  by (simp add: checkStorageQuota_def storage_api_available_def)

lemma checkStorageQuota_rejects: "checkStorageQuota EstimateRejects = Returned None"
  by (simp add: checkStorageQuota_def storage_api_available_def try_catch_def)

lemma checkStorageQuota_no_capacity:
  "or_zero q = 0 \<Longrightarrow> checkStorageQuota (EstimateResolves u q) = Returned None"
  by (simp add: checkStorageQuota_def storage_api_available_def try_catch_def)

lemma checkStorageQuota_capacity:
  "or_zero q \<noteq> 0 \<Longrightarrow>
   checkStorageQuota (EstimateResolves u q) =
     Returned (Some
       \<lparr> usage = or_zero u,
         quota = or_zero q,
         percentUsed = (of_nat (or_zero u) / of_nat (or_zero q)) * 100,
         level = getQuotaLevel ((of_nat (or_zero u) / of_nat (or_zero q)) * 100),
         usageMB = toFixed 2 (of_nat (or_zero u) / (1024 * 1024)),
         quotaMB = toFixed 2 (of_nat (or_zero q) / (1024 * 1024)) \<rparr>)"
  by (simp add: checkStorageQuota_def storage_api_available_def try_catch_def Let_def)

lemma checkStorageQuota_returns: "\<exists>q. checkStorageQuota h = Returned q"
proof (cases h)
  case StorageApiMissing
  then show ?thesis by (simp add: checkStorageQuota_missing)
next
  case EstimateRejects
  then show ?thesis by (simp add: checkStorageQuota_rejects)
next
  case (EstimateResolves u q)
  then show ?thesis
    by (cases "or_zero q = 0")
       (simp_all add: checkStorageQuota_no_capacity checkStorageQuota_capacity)
qed

lemma checkStorageQuota_Some:
  assumes "checkStorageQuota h = Returned (Some i)"
  shows "quota i \<noteq> 0
       \<and> percentUsed i = (of_nat (usage i) / of_nat (quota i)) * 100
       \<and> level i = getQuotaLevel (percentUsed i)
       \<and> usageMB i = toFixed 2 (of_nat (usage i) / (1024 * 1024))
       \<and> quotaMB i = toFixed 2 (of_nat (quota i) / (1024 * 1024))"
proof (cases h)
  case StorageApiMissing
  with assms show ?thesis by (simp add: checkStorageQuota_missing)
next
  case EstimateRejects
  with assms show ?thesis by (simp add: checkStorageQuota_rejects)
next
  case (EstimateResolves u q)
  show ?thesis
  proof (cases "or_zero q = 0")
    case True
    with assms EstimateResolves show ?thesis by (simp add: checkStorageQuota_no_capacity)
  next
    case False
    with assms EstimateResolves show ?thesis
      by (auto simp add: checkStorageQuota_capacity)
  qed
qed

subsection \<open>What canPerformStorageOperation decides\<close>

lemma canPerformStorageOperation_unavailable:
  "checkStorageQuota h = Returned None \<Longrightarrow>
   canPerformStorageOperation h est =
     Returned \<lparr> allowed = True, reason = ''Quota information not available, proceeding'',
                quotaInfo = None \<rparr>"
  by (simp add: canPerformStorageOperation_def)

lemma canPerformStorageOperation_available:
  "checkStorageQuota h = Returned (Some i) \<Longrightarrow>
   \<exists>r. canPerformStorageOperation h est = Returned r \<and> quotaInfo r = Some i \<and>
       (allowed r \<longleftrightarrow>
          level i \<noteq> Danger \<and>
          \<not> (est > 0 \<and> ((of_nat (usage i) + est) / of_nat (quota i)) * 100 \<ge> 100))"
  by (simp add: canPerformStorageOperation_def Let_def)

lemma percent_full_iff:
  fixes y :: rat
  shows "y * 100 \<ge> 100 \<longleftrightarrow> y \<ge> 1"
  by linarith

lemma projected_mono:
  fixes s s' :: rat and c u :: nat
  assumes "s' \<le> s"
  shows "((of_nat u + s') / of_nat c) * 100 \<le> ((of_nat u + s) / of_nat c) * 100"
  using assms by (simp add: divide_right_mono)

text \<open>
  C1. For every host and every estimated size, the decision of
  canPerformStorageOperation is the decision of the four rules of the specification,
  taken in order on the quota information that checkStorageQuota returns: unavailable
  allows, level danger denies, a positive size with
  \<open>(used + estimatedBytes) / capacity \<ge> 1\<close> denies, anything else allows.
\<close>

theorem canPerformStorageOperation_follows_rules:
  "\<exists>q r. checkStorageQuota h = Returned q \<and>
         canPerformStorageOperation h est = Returned r \<and>
         allowed r = admit_rules q est"
proof -
  obtain q where q: "checkStorageQuota h = Returned q"
    using checkStorageQuota_returns by blast
  show ?thesis
  proof (cases q)
    case None
    with q show ?thesis
      by (simp add: canPerformStorageOperation_unavailable admit_rules_def)
  next
    case (Some i)
    with q have ci: "checkStorageQuota h = Returned (Some i)" by simp
    from canPerformStorageOperation_available [OF ci, of est]
    obtain r where r: "canPerformStorageOperation h est = Returned r"
      and a: "allowed r \<longleftrightarrow> level i \<noteq> Danger \<and>
          \<not> (est > 0 \<and> ((of_nat (usage i) + est) / of_nat (quota i)) * 100 \<ge> 100)"
      by blast
    define y where "y = (of_nat (usage i) + est) / rat_of_nat (quota i)"
    have spec: "admit_rules (Some i) est \<longleftrightarrow> level i \<noteq> Danger \<and> \<not> (est > 0 \<and> y \<ge> 1)"
      unfolding admit_rules_def y_def by simp
    from a have code: "allowed r \<longleftrightarrow> level i \<noteq> Danger \<and> \<not> (est > 0 \<and> y * 100 \<ge> 100)"
      unfolding y_def .
    from spec code percent_full_iff [of y] have "allowed r = admit_rules (Some i) est"
      by blast
    with q r Some show ?thesis by simp
  qed
qed

text \<open>
  C10. Admission is antitone in the requested size: on a fixed host, if a size \<open>s\<close> is
  admitted then every size \<open>s' \<le> s\<close> is admitted, in particular every \<open>s'\<close> with
  \<open>0 \<le> s' \<le> s\<close>.
\<close>

theorem admission_antitone:
  assumes "canPerformStorageOperation h s = Returned r" and "allowed r" and "s' \<le> s"
  shows "\<exists>r'. canPerformStorageOperation h s' = Returned r' \<and> allowed r'"
proof -
  obtain q where q: "checkStorageQuota h = Returned q"
    using checkStorageQuota_returns by blast
  show ?thesis
  proof (cases q)
    case None
    with q show ?thesis by (simp add: canPerformStorageOperation_unavailable)
  next
    case (Some i)
    with q have ci: "checkStorageQuota h = Returned (Some i)" by simp
    from canPerformStorageOperation_available [OF ci, of s] assms(1,2)
    have ok: "level i \<noteq> Danger"
      and fit: "\<not> (s > 0 \<and> ((of_nat (usage i) + s) / of_nat (quota i)) * 100 \<ge> 100)"
      by auto
    have "\<not> (s' > 0 \<and> ((of_nat (usage i) + s') / of_nat (quota i)) * 100 \<ge> 100)"
    proof
      assume b: "s' > 0 \<and> ((of_nat (usage i) + s') / of_nat (quota i)) * 100 \<ge> 100"
      with assms(3) have "s > 0" by simp
      moreover from projected_mono [OF assms(3), of "usage i" "quota i"] b
      have "((of_nat (usage i) + s) / of_nat (quota i)) * 100 \<ge> 100" by simp
      ultimately show False using fit by simp
    qed
    with ok canPerformStorageOperation_available [OF ci, of s'] show ?thesis by auto
  qed
qed

theorem admission_antitone_witness:
  "canPerformStorageOperation (EstimateResolves (Some 50) (Some 100)) 10 =
     Returned \<lparr> allowed = True, reason = ''Storage available'',
                quotaInfo = Some \<lparr> usage = 50, quota = 100, percentUsed = 50, level = Safe,
                                   usageMB = ''0.00'', quotaMB = ''0.00'' \<rparr> \<rparr>
   \<and> (5::rat) \<le> 10
   \<and> (\<exists>r'. canPerformStorageOperation (EstimateResolves (Some 50) (Some 100)) 5 = Returned r'
           \<and> allowed r')"
proof -
  have a: "canPerformStorageOperation (EstimateResolves (Some 50) (Some 100)) 10 =
     Returned \<lparr> allowed = True, reason = ''Storage available'',
                quotaInfo = Some \<lparr> usage = 50, quota = 100, percentUsed = 50, level = Safe,
                                   usageMB = ''0.00'', quotaMB = ''0.00'' \<rparr> \<rparr>"
    by code_simp
  have b: "(5::rat) \<le> 10" by simp
  from admission_antitone [OF a _ b] a b show ?thesis by simp
qed

text \<open>
  C2. Whenever the quota information has level danger, canPerformStorageOperation
  returns \<open>allowed = false\<close>, whatever the estimated size is (so for every size
  \<open>\<ge> 0\<close>, the default \<open>0\<close> included).
\<close>

theorem danger_denies_any_size:
  assumes "checkStorageQuota h = Returned (Some i)" and "level i = Danger"
  shows "\<exists>r. canPerformStorageOperation h est = Returned r \<and> \<not> allowed r"
  using canPerformStorageOperation_available [OF assms(1), of est] assms(2) by auto

theorem danger_denies_any_size_witness:
  "checkStorageQuota (EstimateResolves (Some 96) (Some 100)) =
     Returned (Some \<lparr> usage = 96, quota = 100, percentUsed = 96, level = Danger,
                      usageMB = ''0.00'', quotaMB = ''0.00'' \<rparr>)
   \<and> (\<exists>r. canPerformStorageOperation (EstimateResolves (Some 96) (Some 100)) 1 = Returned r
          \<and> \<not> allowed r)"
proof -
  have a: "checkStorageQuota (EstimateResolves (Some 96) (Some 100)) =
     Returned (Some \<lparr> usage = 96, quota = 100, percentUsed = 96, level = Danger,
                      usageMB = ''0.00'', quotaMB = ''0.00'' \<rparr>)"
    by code_simp
  from danger_denies_any_size [OF a, of 1] a show ?thesis by simp
qed

subsection \<open>Levels\<close>

lemma getQuotaLevel_Safe: "getQuotaLevel p = Safe \<longleftrightarrow> p < 80"
  by (simp add: getQuotaLevel_def QUOTA_THRESHOLDS_WARNING_def QUOTA_THRESHOLDS_CRITICAL_def
      QUOTA_THRESHOLDS_DANGER_def)

lemma getQuotaLevel_Warning: "getQuotaLevel p = Warning \<longleftrightarrow> 80 \<le> p \<and> p < 90"
  by (simp add: getQuotaLevel_def QUOTA_THRESHOLDS_WARNING_def QUOTA_THRESHOLDS_CRITICAL_def
      QUOTA_THRESHOLDS_DANGER_def)

lemma getQuotaLevel_Critical: "getQuotaLevel p = Critical \<longleftrightarrow> 90 \<le> p \<and> p < 95"
  by (simp add: getQuotaLevel_def QUOTA_THRESHOLDS_WARNING_def QUOTA_THRESHOLDS_CRITICAL_def
      QUOTA_THRESHOLDS_DANGER_def)

lemma getQuotaLevel_Danger: "getQuotaLevel p = Danger \<longleftrightarrow> 95 \<le> p"
  by (simp add: getQuotaLevel_def QUOTA_THRESHOLDS_WARNING_def QUOTA_THRESHOLDS_CRITICAL_def
      QUOTA_THRESHOLDS_DANGER_def)

text \<open>
  C3. For every reported usage \<open>u\<close> and capacity \<open>q \<noteq> 0\<close>, checkStorageQuota returns
  quota information with \<open>percentUsed = u / q * 100\<close> whose level is safe exactly below
  80, warning exactly from 80 to below 90, critical exactly from 90 to below 95, and
  danger exactly from 95 on; so each of 80, 90 and 95 lies in one level only.
\<close>

theorem checkStorageQuota_classifies:
  assumes "q \<noteq> 0"
  shows "\<exists>i. checkStorageQuota (EstimateResolves (Some u) (Some q)) = Returned (Some i)
           \<and> usage i = u \<and> quota i = q
           \<and> percentUsed i = (of_nat u / of_nat q) * 100
           \<and> (level i = Safe \<longleftrightarrow> percentUsed i < 80)
           \<and> (level i = Warning \<longleftrightarrow> 80 \<le> percentUsed i \<and> percentUsed i < 90)
           \<and> (level i = Critical \<longleftrightarrow> 90 \<le> percentUsed i \<and> percentUsed i < 95)
           \<and> (level i = Danger \<longleftrightarrow> 95 \<le> percentUsed i)"
proof -
  define p :: rat where "p = (of_nat u / of_nat q) * 100"
  define i where "i = \<lparr> usage = u, quota = q, percentUsed = p, level = getQuotaLevel p,
      usageMB = toFixed 2 (of_nat u / (1024 * 1024)),
      quotaMB = toFixed 2 (of_nat q / (1024 * 1024)) \<rparr>"
  from assms have c: "or_zero (Some q) \<noteq> 0" and c': "or_zero (Some q) = q"
    by (simp_all add: or_zero_def)
  have u: "or_zero (Some u) = u" by (simp add: or_zero_def)
  have r: "checkStorageQuota (EstimateResolves (Some u) (Some q)) = Returned (Some i)"
    unfolding checkStorageQuota_capacity [OF c] c' u i_def p_def ..
  have f: "usage i = u" "quota i = q" "percentUsed i = p" "level i = getQuotaLevel p"
    by (simp_all add: i_def)
  have "percentUsed i = (of_nat u / of_nat q) * 100"
    unfolding f p_def ..
  moreover have "level i = Safe \<longleftrightarrow> percentUsed i < 80"
    unfolding f by (rule getQuotaLevel_Safe)
  moreover have "level i = Warning \<longleftrightarrow> 80 \<le> percentUsed i \<and> percentUsed i < 90"
    unfolding f by (rule getQuotaLevel_Warning)
  moreover have "level i = Critical \<longleftrightarrow> 90 \<le> percentUsed i \<and> percentUsed i < 95"
    unfolding f by (rule getQuotaLevel_Critical)
  moreover have "level i = Danger \<longleftrightarrow> 95 \<le> percentUsed i"
    unfolding f by (rule getQuotaLevel_Danger)
  ultimately show ?thesis using r f(1,2) by blast
qed

theorem checkStorageQuota_classifies_witness:
  "(100::nat) \<noteq> 0
   \<and> (\<exists>i. checkStorageQuota (EstimateResolves (Some 80) (Some 100)) = Returned (Some i)
          \<and> percentUsed i = 80 \<and> level i = Warning)
   \<and> (\<exists>i. checkStorageQuota (EstimateResolves (Some 90) (Some 100)) = Returned (Some i)
          \<and> percentUsed i = 90 \<and> level i = Critical)
   \<and> (\<exists>i. checkStorageQuota (EstimateResolves (Some 95) (Some 100)) = Returned (Some i)
          \<and> percentUsed i = 95 \<and> level i = Danger)"
proof -
  have n: "(100::nat) \<noteq> 0" by simp
  from checkStorageQuota_classifies [OF n, of 80]
  have a: "\<exists>i. checkStorageQuota (EstimateResolves (Some 80) (Some 100)) = Returned (Some i)
          \<and> percentUsed i = 80 \<and> level i = Warning"
    by auto
  from checkStorageQuota_classifies [OF n, of 90]
  have b: "\<exists>i. checkStorageQuota (EstimateResolves (Some 90) (Some 100)) = Returned (Some i)
          \<and> percentUsed i = 90 \<and> level i = Critical"
    by auto
  from checkStorageQuota_classifies [OF n, of 95]
  have c: "\<exists>i. checkStorageQuota (EstimateResolves (Some 95) (Some 100)) = Returned (Some i)
          \<and> percentUsed i = 95 \<and> level i = Danger"
    by auto
  from n a b c show ?thesis by blast
qed

text \<open>
  C8. getQuotaLevel is total and monotone: every percentage has a level, one of the
  four, and a larger percentage never has a lower level in the order
  \<open>safe < warning < critical < danger\<close>.
\<close>

theorem getQuotaLevel_total_monotone:
  assumes "p1 \<le> p2"
  shows "getQuotaLevel p1 \<in> {Safe, Warning, Critical, Danger}
       \<and> level_rank (getQuotaLevel p1) \<le> level_rank (getQuotaLevel p2)"
proof
  show "getQuotaLevel p1 \<in> {Safe, Warning, Critical, Danger}"
    by (cases "getQuotaLevel p1") simp_all
  show "level_rank (getQuotaLevel p1) \<le> level_rank (getQuotaLevel p2)"
    using assms by (simp add: getQuotaLevel_def QUOTA_THRESHOLDS_WARNING_def
        QUOTA_THRESHOLDS_CRITICAL_def QUOTA_THRESHOLDS_DANGER_def)
qed

theorem getQuotaLevel_total_monotone_witness:
  "(80::rat) \<le> 95
   \<and> getQuotaLevel 80 \<in> {Safe, Warning, Critical, Danger}
   \<and> level_rank (getQuotaLevel 80) \<le> level_rank (getQuotaLevel 95)"
  using getQuotaLevel_total_monotone [of 80 95] by simp

subsection \<open>The unavailable result\<close>

text \<open>
  C4. checkStorageQuota never throws, and it returns the unavailable result (\<open>null\<close>)
  exactly when the host cannot report: the storage API is missing, the estimate
  fails, or the reported capacity is absent or 0. (A usage that is absent next to a
  nonzero capacity is read as 0 and does not make the result unavailable.) The
  unavailable result is no failure for the caller in this module:
  canPerformStorageOperation then returns normally and allows the operation.
\<close>

theorem checkStorageQuota_unavailable_iff:
  "checkStorageQuota h \<noteq> Threw
   \<and> (checkStorageQuota h = Returned None \<longleftrightarrow>
        h = StorageApiMissing \<or> h = EstimateRejects \<or>
        (\<exists>u. h = EstimateResolves u None) \<or> (\<exists>u. h = EstimateResolves u (Some 0)))
   \<and> (checkStorageQuota h = Returned None \<longrightarrow>
        (\<exists>r. canPerformStorageOperation h est = Returned r \<and> allowed r))"
proof (intro conjI)
  from checkStorageQuota_returns [of h] show "checkStorageQuota h \<noteq> Threw" by auto
next
  show "checkStorageQuota h = Returned None \<longleftrightarrow>
        h = StorageApiMissing \<or> h = EstimateRejects \<or>
        (\<exists>u. h = EstimateResolves u None) \<or> (\<exists>u. h = EstimateResolves u (Some 0))"
  proof (cases h)
    case StorageApiMissing
    then show ?thesis by (simp add: checkStorageQuota_missing)
  next
    case EstimateRejects
    then show ?thesis by (simp add: checkStorageQuota_rejects)
  next
    case (EstimateResolves u q)
    have z: "or_zero q = 0 \<longleftrightarrow> q = None \<or> q = Some 0"
      by (cases q) (simp_all add: or_zero_def)
    show ?thesis
    proof (cases "or_zero q = 0")
      case True
      with EstimateResolves z show ?thesis by (simp add: checkStorageQuota_no_capacity)
    next
      case False
      with EstimateResolves z show ?thesis by (simp add: checkStorageQuota_capacity)
    qed
  qed
next
  show "checkStorageQuota h = Returned None \<longrightarrow>
        (\<exists>r. canPerformStorageOperation h est = Returned r \<and> allowed r)"
    by (simp add: canPerformStorageOperation_unavailable)
qed

theorem checkStorageQuota_unavailable_iff_witness:
  "checkStorageQuota (EstimateResolves (Some 5) (Some 0)) = Returned None
   \<and> (\<exists>r. canPerformStorageOperation (EstimateResolves (Some 5) (Some 0)) 7 = Returned r
          \<and> allowed r)
   \<and> checkStorageQuota EstimateRejects = Returned None
   \<and> checkStorageQuota (EstimateResolves None (Some 100)) \<noteq> Returned None"
  using checkStorageQuota_unavailable_iff [of "EstimateResolves (Some 5) (Some 0)" 7]
    checkStorageQuota_unavailable_iff [of EstimateRejects 0]
    checkStorageQuota_unavailable_iff [of "EstimateResolves None (Some 100)" 0]
  by simp

subsection \<open>Size estimation\<close>

text \<open>
  C5. Whenever the record serializes to a string, the estimated size is the length of
  that string (its number of characters, each counted as one fixed-width unit) times 2.
\<close>

theorem estimateObjectSize_two_bytes_per_char:
  assumes "stringify obj = Returned (Some s)"
  shows "estimateObjectSize stringify obj = Returned (length s * 2)"
  using assms by (simp add: estimateObjectSize_def try_catch_def js_length_def)

theorem estimateObjectSize_two_bytes_per_char_witness:
  "(\<lambda>b. Returned (Some (if b then ''true'' else ''false''))) True = Returned (Some ''true'')
   \<and> estimateObjectSize (\<lambda>b. Returned (Some (if b then ''true'' else ''false''))) True
       = Returned 8"
  using estimateObjectSize_two_bytes_per_char
    [of "\<lambda>b. Returned (Some (if b then ''true'' else ''false''))" True "''true''"]
  by simp

lemma estimateObjectSize_failed:
  "stringify obj = Threw \<or> stringify obj = Returned None \<Longrightarrow>
   estimateObjectSize stringify obj = Returned 0"
  by (auto simp add: estimateObjectSize_def try_catch_def js_length_def)

text \<open>
  C9. If serialization fails (it throws, or it yields no string), estimateObjectSize
  returns 0; canPerformStorageOperation skips the projection check for the size 0, so
  with that estimate the write is admitted on every host whose current level is below
  danger. The true size of the record appears nowhere in the decision.
\<close>

theorem failed_estimate_is_admitted:
  assumes "stringify obj = Threw \<or> stringify obj = Returned None"
    and "checkStorageQuota h = Returned (Some i)"
    and "level i \<noteq> Danger"
  shows "estimateObjectSize stringify obj = Returned 0
       \<and> (\<exists>n r. estimateObjectSize stringify obj = Returned n
                \<and> canPerformStorageOperation h (of_nat n) = Returned r \<and> allowed r)"
proof -
  from assms(1) have z: "estimateObjectSize stringify obj = Returned 0"
    by (rule estimateObjectSize_failed)
  from canPerformStorageOperation_available [OF assms(2), of "of_nat 0"] assms(3)
  have "\<exists>r. canPerformStorageOperation h (of_nat 0) = Returned r \<and> allowed r"
    by auto
  with z show ?thesis by blast
qed

theorem failed_estimate_is_admitted_witness:
  "((\<lambda>_::unit. Threw :: char list option outcome) () = Threw
      \<or> (\<lambda>_::unit. Threw :: char list option outcome) () = Returned None)
   \<and> checkStorageQuota (EstimateResolves (Some 94) (Some 100)) =
       Returned (Some \<lparr> usage = 94, quota = 100, percentUsed = 94, level = Critical,
                        usageMB = ''0.00'', quotaMB = ''0.00'' \<rparr>)
   \<and> estimateObjectSize (\<lambda>_::unit. Threw :: char list option outcome) () = Returned 0
   \<and> (\<exists>n r. estimateObjectSize (\<lambda>_::unit. Threw :: char list option outcome) () = Returned n
            \<and> canPerformStorageOperation (EstimateResolves (Some 94) (Some 100)) (of_nat n)
                = Returned r
            \<and> allowed r)"
proof -
  have a: "(\<lambda>_::unit. Threw :: char list option outcome) () = Threw
      \<or> (\<lambda>_::unit. Threw :: char list option outcome) () = Returned None"
    by simp
  have b: "checkStorageQuota (EstimateResolves (Some 94) (Some 100)) =
       Returned (Some \<lparr> usage = 94, quota = 100, percentUsed = 94, level = Critical,
                        usageMB = ''0.00'', quotaMB = ''0.00'' \<rparr>)"
    by code_simp
  have c: "level \<lparr> usage = 94, quota = 100, percentUsed = 94, level = Critical,
                        usageMB = ''0.00'', quotaMB = ''0.00'' \<rparr> \<noteq> Danger"
    by simp
  from failed_estimate_is_admitted
    [of "\<lambda>_::unit. Threw :: char list option outcome" "()", OF _ b c] b
  show ?thesis by auto
qed

subsection \<open>The quota check after a write\<close>

text \<open>
  What holds of monitorStorageQuota on every host: a quota report that fails or is
  unavailable is swallowed (the unavailable result, no effect, no exception); and when
  \<open>chrome.notifications\<close> is missing or \<open>create\<close> returns a promise, it returns what
  checkStorageQuota returned.
\<close>

lemma monitorStorageQuota_unavailable:
  "checkStorageQuota h = Returned None \<Longrightarrow> monitorStorageQuota h n = ([], Returned None)"
  by (simp add: monitorStorageQuota_def)

lemma monitorStorageQuota_report_fails:
  "monitorStorageQuota EstimateRejects n = ([], Returned None)"
  by (simp add: monitorStorageQuota_unavailable checkStorageQuota_rejects)

lemma monitorStorageQuota_safe:
  "checkStorageQuota h = Returned (Some i) \<Longrightarrow> level i = Safe \<Longrightarrow>
   monitorStorageQuota h n = ([], Returned (Some i))"
  by (simp add: monitorStorageQuota_def)

lemma monitorStorageQuota_with_promise:
  assumes "n = NotificationsMissing \<or> n = CreateResolves \<or> n = CreateRejects"
  shows "\<exists>es q. checkStorageQuota h = Returned q \<and> monitorStorageQuota h n = (es, Returned q)"
proof -
  obtain q where q: "checkStorageQuota h = Returned q"
    using checkStorageQuota_returns by blast
  show ?thesis
  proof (cases q)
    case None
    with q show ?thesis by (simp add: monitorStorageQuota_unavailable)
  next
    case (Some i)
    with q assms show ?thesis
      by (auto simp add: monitorStorageQuota_def showStorageWarning_def Let_def)
  qed
qed

lemma monitorStorageQuota_throws_iff:
  "snd (monitorStorageQuota h n) = Threw \<longleftrightarrow>
     (n = CreateReturnsNoPromise \<or> n = CreateThrows) \<and>
     (\<exists>i. checkStorageQuota h = Returned (Some i) \<and> level i \<noteq> Safe)"
proof -
  obtain q where q: "checkStorageQuota h = Returned q"
    using checkStorageQuota_returns by blast
  show ?thesis
  proof (cases q)
    case None
    with q show ?thesis by (simp add: monitorStorageQuota_unavailable)
  next
    case (Some i)
    with q show ?thesis
      by (cases n) (auto simp add: monitorStorageQuota_def showStorageWarning_def Let_def)
  qed
qed

text \<open>
  C6. monitorStorageQuota is to return normally on every host and never raise. The code
  swallows a failed quota report and a rejected notification promise, but not a
  \<open>create\<close> that returns no promise: at 92 of 100 bytes used (level critical) the
  notification is created, then \<open>.catch\<close> is read of \<open>undefined\<close>, and
  monitorStorageQuota throws.
\<close>

theorem monitorStorageQuota_raises_without_promise:
  "snd (monitorStorageQuota (EstimateResolves (Some 92) (Some 100)) CreateReturnsNoPromise)
     = Threw
   \<and> fst (monitorStorageQuota (EstimateResolves (Some 92) (Some 100)) CreateReturnsNoPromise)
     = [CreateNotification
          \<lparr> ntype = ''basic'',
            iconUrl = ''../icons/icon128.png'',
            title = ''Storage Warning'',
            message = warning_sign @ '' Storage almost full (92.0%). Using 0.00MB of 0.00MB. Consider deleting old conversations or prompts.'',
            priority = 1 \<rparr>]"
  by code_simp

subsection \<open>Text for the user\<close>

lemma toFixed_one_and_a_half: "toFixed 2 (3 / 2) = ''1.50''"
  by code_simp

lemma toFixed_two: "toFixed 2 2 = ''2.00''"
  by code_simp

lemma toFixed_seventy_five: "toFixed (Suc 0) 75 = ''75.0''"
  by code_simp

lemma checkStorageQuota_example:
  "checkStorageQuota (EstimateResolves (Some 1572864) (Some 2097152)) =
     Returned (Some \<lparr> usage = 1572864, quota = 2097152, percentUsed = 75,
                      level = Safe, usageMB = ''1.50'', quotaMB = ''2.00'' \<rparr>)"
  by (simp add: checkStorageQuota_capacity or_zero_def getQuotaLevel_def
      QUOTA_THRESHOLDS_WARNING_def QUOTA_THRESHOLDS_CRITICAL_def QUOTA_THRESHOLDS_DANGER_def
      toFixed_one_and_a_half toFixed_two)

text \<open>
  C7, as stated: the core hands out only the raw tuple and formats no user-facing text.
  It fails: for 1.5 MiB used of 2 MiB the quota information itself carries the strings
  \<open>1.50\<close> and \<open>2.00\<close>, and getStorageStatusMessage makes a sentence of it.
\<close>

theorem core_formats_text_counterexample:
  "checkStorageQuota (EstimateResolves (Some 1572864) (Some 2097152)) =
     Returned (Some \<lparr> usage = 1572864, quota = 2097152, percentUsed = 75,
                      level = Safe, usageMB = ''1.50'', quotaMB = ''2.00'' \<rparr>)
   \<and> getStorageStatusMessage
       (Some \<lparr> usage = 1572864, quota = 2097152, percentUsed = 75,
               level = Safe, usageMB = ''1.50'', quotaMB = ''2.00'' \<rparr>) =
     ''Storage: 1.50MB / 2.00MB (75.0%)''"
  by (simp add: checkStorageQuota_example getStorageStatusMessage_def toFixed_seventy_five)

lemma getStorageStatusMessage_nonempty: "getStorageStatusMessage q \<noteq> []"
proof (cases q)
  case None
  then show ?thesis by (simp add: getStorageStatusMessage_def)
next
  case (Some i)
  then show ?thesis
    by (cases "level i") (simp_all add: getStorageStatusMessage_def warning_sign_def)
qed

text \<open>
  C7, amended: the module does format text for the user. Quota information carries,
  next to usage, quota, percentUsed and level, the strings usageMB and quotaMB, which
  are usage and capacity divided by \<open>1024 * 1024\<close> written with two decimals; and
  getStorageStatusMessage turns every result of checkStorageQuota into a non-empty
  sentence, the unavailable result into a fixed one.
\<close>

theorem core_formats_text:
  "(checkStorageQuota h = Returned (Some i) \<longrightarrow>
      usageMB i = toFixed 2 (of_nat (usage i) / (1024 * 1024)) \<and>
      quotaMB i = toFixed 2 (of_nat (quota i) / (1024 * 1024)))
   \<and> getStorageStatusMessage None = ''Storage usage information not available''
   \<and> getStorageStatusMessage q \<noteq> []"
proof (intro conjI impI)
  assume a: "checkStorageQuota h = Returned (Some i)"
  from checkStorageQuota_Some [OF a]
  show "usageMB i = toFixed 2 (of_nat (usage i) / (1024 * 1024))"
    and "quotaMB i = toFixed 2 (of_nat (quota i) / (1024 * 1024))"
    by simp_all
next
  show "getStorageStatusMessage None = ''Storage usage information not available''"
    by (simp add: getStorageStatusMessage_def)
next
  show "getStorageStatusMessage q \<noteq> []"
    by (rule getStorageStatusMessage_nonempty)
qed

theorem core_formats_text_witness:
  "checkStorageQuota (EstimateResolves (Some 1572864) (Some 2097152)) =
     Returned (Some \<lparr> usage = 1572864, quota = 2097152, percentUsed = 75,
                      level = Safe, usageMB = ''1.50'', quotaMB = ''2.00'' \<rparr>)
   \<and> ''1.50'' = toFixed 2 (of_nat 1572864 / (1024 * 1024))
   \<and> ''2.00'' = toFixed 2 (of_nat 2097152 / (1024 * 1024))
   \<and> getStorageStatusMessage None \<noteq> []"
  using core_formats_text
    [of "EstimateResolves (Some 1572864) (Some 2097152)"
        "\<lparr> usage = 1572864, quota = 2097152, percentUsed = 75,
                      level = Safe, usageMB = ''1.50'', quotaMB = ''2.00'' \<rparr>" None]
    checkStorageQuota_example
  by simp

end
